theory Spec2Isabelle
  imports Complex_Main "HOL-Library.Sublist" "HOL-Library.Multiset"
begin

section \<open>Career Path Explorer: the REST handlers, their queries and the resource filter\<close>

text \<open>
  The development follows the three tiers of the application: request validation
  (\<^verbatim>\<open>validation/schemas.ts\<close>), the query functions over the two tables
  (\<^verbatim>\<open>db/queries.ts\<close> under the schema of \<^verbatim>\<open>db/migrate.ts\<close>), the route handlers
  (\<^verbatim>\<open>routes/roles.ts\<close>, \<^verbatim>\<open>routes/resources.ts\<close>, \<^verbatim>\<open>server.ts\<close>) and the
  \<^verbatim>\<open>ResourceList\<close> component of the frontend.

  A JavaScript string is a \<^typ>\<open>string\<close>, one \<^typ>\<open>char\<close> per code unit (so the
  model ranges over the strings whose code units are below 256). A JavaScript number
  is a rational: the rounding of doubles is not part of the model.
\<close>

subsection \<open>Request bodies\<close>

text \<open>
  \<^verbatim>\<open>req.body\<close> as \<^verbatim>\<open>express.json()\<close> leaves it. The members of an object are
  listed as in the text of the request; a later member of the same name overrides an
  earlier one. A member that is absent reads as \<^verbatim>\<open>undefined\<close>, here \<^const>\<open>None\<close>.
\<close>

datatype json =
    JNull
  | JBool bool
  | JNum rat
  | JStr string
  | JArr "json list"
  | JObj "(string \<times> json) list"

definition member :: "(string \<times> json) list \<Rightarrow> string \<Rightarrow> json option" where
  "member kvs k = map_of (rev kvs) k"

subsection \<open>Validation schemas\<close>

datatype ResourceType = Video | Article | Course

datatype DifficultyLevel = Beginner | Intermediate | Advanced

text \<open>A value of a field declared \<^verbatim>\<open>.optional().nullable()\<close>.\<close>

datatype 'a optional = Undefined | Null | Given 'a

record CreateRoleInput =
  in_name :: string
  in_short_description :: string
  in_long_description :: "string optional"
  in_responsibilities :: "string list optional"
  in_skills :: "string list optional"

record CreateResourceInput =
  in_role_id :: int
  in_title :: string
  in_url :: string
  in_resource_type :: ResourceType
  in_difficulty :: DifficultyLevel

text \<open>The primitive schemas: \<^verbatim>\<open>z.string()\<close>, \<^verbatim>\<open>z.number()\<close>, \<^verbatim>\<open>z.array(z.string())\<close>.\<close>

fun z_string :: "json option \<Rightarrow> string option" where
  "z_string (Some (JStr s)) = Some s"
| "z_string _ = None"

fun z_number :: "json option \<Rightarrow> rat option" where
  "z_number (Some (JNum r)) = Some r"
| "z_number _ = None"

fun z_array_string :: "json option \<Rightarrow> string list option" where
  "z_array_string (Some (JArr xs)) = those (map (\<lambda>x. z_string (Some x)) xs)"
| "z_array_string _ = None"

text \<open>\<^verbatim>\<open>.optional().nullable()\<close> around a schema.\<close>

fun optional_nullable :: "(json option \<Rightarrow> 'a option) \<Rightarrow> json option \<Rightarrow> 'a optional option" where
  "optional_nullable inner None = Some Undefined"
| "optional_nullable inner (Some JNull) = Some Null"
| "optional_nullable inner (Some v) = map_option Given (inner (Some v))"

text \<open>\<^verbatim>\<open>Number.isInteger\<close>, the test behind \<^verbatim>\<open>.int()\<close>.\<close>

definition isInteger :: "rat \<Rightarrow> bool" where
  "isInteger r = (of_int \<lfloor>r\<rfloor> = r)"

text \<open>
  \<^verbatim>\<open>String.prototype.trim\<close>: white space and line terminators are removed at both
  ends (the code units below 256 among them: tab, line feed, vertical tab, form feed,
  carriage return, space, no-break space).
\<close>

definition is_whitespace :: "char \<Rightarrow> bool" where
  "is_whitespace c = ((of_char c :: nat) \<in> set [9, 10, 11, 12, 13, 32, 160])"

definition trim :: "string \<Rightarrow> string" where
  "trim s = rev (dropWhile is_whitespace (rev (dropWhile is_whitespace s)))"

text \<open>\<^verbatim>\<open>ResourceTypeSchema\<close> and \<^verbatim>\<open>DifficultyLevelSchema\<close>, the two \<^verbatim>\<open>z.enum\<close>.\<close>

definition ResourceTypeSchema :: "json option \<Rightarrow> ResourceType option" where
  "ResourceTypeSchema v =
     (if v = Some (JStr ''Video'') then Some Video
      else if v = Some (JStr ''Article'') then Some Article
      else if v = Some (JStr ''Course'') then Some Course
      else None)"

definition DifficultyLevelSchema :: "json option \<Rightarrow> DifficultyLevel option" where
  "DifficultyLevelSchema v =
     (if v = Some (JStr ''Beginner'') then Some Beginner
      else if v = Some (JStr ''Intermediate'') then Some Intermediate
      else if v = Some (JStr ''Advanced'') then Some Advanced
      else None)"

text \<open>The fields of \<^verbatim>\<open>CreateRoleSchema\<close>.\<close>

definition name_schema :: "json option \<Rightarrow> string option" where
  "name_schema v =
     (case z_string v of
        None \<Rightarrow> None
      | Some s \<Rightarrow>
          if 1 \<le> length s \<and> length s \<le> 255 \<and> 0 < length (trim s) then Some s else None)"

definition short_description_schema :: "json option \<Rightarrow> string option" where
  "short_description_schema v =
     (case z_string v of
        None \<Rightarrow> None
      | Some s \<Rightarrow> if 1 \<le> length s \<and> 0 < length (trim s) then Some s else None)"

text \<open>
  \<^verbatim>\<open>CreateRoleSchema.safeParse\<close>: \<^const>\<open>None\<close> when \<^verbatim>\<open>success\<close> is false, the
  parsed \<^verbatim>\<open>data\<close> otherwise. Every field is checked; one issue is enough to fail.
\<close>

definition CreateRoleSchema_safeParse :: "json \<Rightarrow> CreateRoleInput option" where
  "CreateRoleSchema_safeParse b =
     (case b of
        JObj kvs \<Rightarrow>
          (case (name_schema (member kvs ''name''),
                 short_description_schema (member kvs ''short_description''),
                 optional_nullable z_string (member kvs ''long_description''),
                 optional_nullable z_array_string (member kvs ''responsibilities''),
                 optional_nullable z_array_string (member kvs ''skills'')) of
             (Some n, Some sd, Some ld, Some rs, Some sk) \<Rightarrow>
               Some \<lparr>in_name = n, in_short_description = sd, in_long_description = ld,
                     in_responsibilities = rs, in_skills = sk\<rparr>
           | _ \<Rightarrow> None)
      | _ \<Rightarrow> None)"

text \<open>
  The fields of \<^verbatim>\<open>CreateResourceSchema\<close>. \<^verbatim>\<open>z.string().url()\<close> asks the platform's
  URL parser, which is not part of the repository: it is the parameter \<open>is_url\<close>.
\<close>

definition role_id_schema :: "json option \<Rightarrow> int option" where
  "role_id_schema v =
     (case z_number v of
        None \<Rightarrow> None
      | Some r \<Rightarrow> if isInteger r \<and> 0 < r then Some \<lfloor>r\<rfloor> else None)"

definition title_schema :: "json option \<Rightarrow> string option" where
  "title_schema v =
     (case z_string v of
        None \<Rightarrow> None
      | Some s \<Rightarrow>
          if 1 \<le> length s \<and> length s \<le> 255 \<and> 0 < length (trim s) then Some s else None)"

definition url_schema :: "(string \<Rightarrow> bool) \<Rightarrow> json option \<Rightarrow> string option" where
  "url_schema is_url v =
     (case z_string v of
        None \<Rightarrow> None
      | Some s \<Rightarrow> if is_url s then Some s else None)"

definition CreateResourceSchema_safeParse ::
    "(string \<Rightarrow> bool) \<Rightarrow> json \<Rightarrow> CreateResourceInput option" where
  "CreateResourceSchema_safeParse is_url b =
     (case b of
        JObj kvs \<Rightarrow>
          (case (role_id_schema (member kvs ''role_id''),
                 title_schema (member kvs ''title''),
                 url_schema is_url (member kvs ''url''),
                 ResourceTypeSchema (member kvs ''resource_type''),
                 DifficultyLevelSchema (member kvs ''difficulty'')) of
             (Some i, Some t, Some u, Some rt, Some d) \<Rightarrow>
               Some \<lparr>in_role_id = i, in_title = t, in_url = u,
                     in_resource_type = rt, in_difficulty = d\<rparr>
           | _ \<Rightarrow> None)
      | _ \<Rightarrow> None)"

text \<open>
  \<^verbatim>\<open>RoleIdParamSchema\<close> on the path parameter \<^verbatim>\<open>req.params.id\<close>, always a string:
  the regular expression \<^verbatim>\<open>/^\d+$/\<close>, then \<^verbatim>\<open>Number\<close>.
\<close>

definition is_digit :: "char \<Rightarrow> bool" where
  "is_digit c = (48 \<le> (of_char c :: nat) \<and> (of_char c :: nat) \<le> 57)"

definition Number :: "string \<Rightarrow> int" where
  "Number s = foldl (\<lambda>n c. 10 * n + (int (of_char c) - 48)) 0 s"

definition RoleIdParamSchema_safeParse :: "string \<Rightarrow> int option" where
  "RoleIdParamSchema_safeParse p =
     (if p \<noteq> [] \<and> list_all is_digit p then Some (Number p) else None)"

subsection \<open>The two tables\<close>

text \<open>
  A row of \<^verbatim>\<open>roles\<close> and a row of \<^verbatim>\<open>resources\<close>, as \<^verbatim>\<open>CREATE_ROLES_TABLE\<close> and
  \<^verbatim>\<open>CREATE_RESOURCES_TABLE\<close> declare them. A column without \<^verbatim>\<open>NOT NULL\<close> holds an
  option, \<^const>\<open>None\<close> for SQL's \<^verbatim>\<open>NULL\<close>. The \<^verbatim>\<open>CHECK\<close> constraints on
  \<^verbatim>\<open>resource_type\<close> and \<^verbatim>\<open>difficulty\<close> are the two enumeration types.
\<close>

record Role =
  r_id :: int
  r_name :: string
  r_short_description :: string
  r_long_description :: "string option"
  r_responsibilities :: "string list option"
  r_skills :: "string list option"

record Resource =
  res_id :: int
  res_role_id :: int
  res_title :: string
  res_url :: string
  res_resource_type :: ResourceType
  res_difficulty :: DifficultyLevel

record RoleSummary =
  s_id :: int
  s_name :: string
  s_short_description :: string

text \<open>\<^verbatim>\<open>RoleWithResources\<close>: the columns of the role and the member \<^verbatim>\<open>resources\<close>.\<close>

record RoleWithResources =
  w_id :: int
  w_name :: string
  w_short_description :: string
  w_long_description :: "string option"
  w_responsibilities :: "string list option"
  w_skills :: "string list option"
  w_resources :: "Resource list"

text \<open>
  The database: the rows of each table in insertion order, and the last value each
  \<^verbatim>\<open>SERIAL\<close> sequence has handed out.
\<close>

record store =
  roles :: "Role list"
  roles_id_seq :: int
  resources :: "Resource list"
  resources_id_seq :: int

definition empty_store :: store where
  "empty_store = \<lparr>roles = [], roles_id_seq = 0, resources = [], resources_id_seq = 0\<rparr>"

text \<open>
  \<^verbatim>\<open>pool.query\<close> returns a promise that may reject. \<open>Rejected\<close> stands for a
  rejection the statement's text does not decide (a lost connection, a parameter the
  server refuses); the two violations are those of \<^verbatim>\<open>PRIMARY KEY\<close> and of
  \<^verbatim>\<open>REFERENCES roles(id)\<close>. A value of type \<open>faults\<close> says which calls of
  \<^verbatim>\<open>pool.query\<close> are rejected that way, counted from 0 in the order they are made.
\<close>

datatype db_error = Rejected | UniqueViolation | ForeignKeyViolation

type_synonym faults = "nat \<Rightarrow> bool"

definition no_faults :: faults where
  "no_faults = (\<lambda>k. False)"

definition later :: "nat \<Rightarrow> faults \<Rightarrow> faults" where
  "later n rej = (\<lambda>k. rej (k + n))"

subsection \<open>Query functions\<close>

definition summary :: "Role \<Rightarrow> RoleSummary" where
  "summary r = \<lparr>s_id = r_id r, s_name = r_name r, s_short_description = r_short_description r\<rparr>"

text \<open>\<^verbatim>\<open>SELECT id, name, short_description FROM roles ORDER BY id\<close>\<close>

definition getAllRoles :: "faults \<Rightarrow> store \<Rightarrow> (db_error + RoleSummary list) \<times> store" where
  "getAllRoles rej s =
     (if rej 0 then (Inl Rejected, s)
      else (Inr (map summary (sort_key r_id (roles s))), s))"

text \<open>\<^verbatim>\<open>{ ...role, resources: resourcesResult.rows }\<close>\<close>

definition with_resources :: "Role \<Rightarrow> Resource list \<Rightarrow> RoleWithResources" where
  "with_resources r rs =
     \<lparr>w_id = r_id r, w_name = r_name r, w_short_description = r_short_description r,
      w_long_description = r_long_description r, w_responsibilities = r_responsibilities r,
      w_skills = r_skills r, w_resources = rs\<rparr>"

text \<open>
  \<^verbatim>\<open>getRoleById\<close>: the role first (\<^verbatim>\<open>WHERE id = $1\<close>), \<^verbatim>\<open>null\<close> when there is no
  such row, then its resources (\<^verbatim>\<open>WHERE role_id = $1 ORDER BY id\<close>).
\<close>

definition getRoleById ::
    "faults \<Rightarrow> int \<Rightarrow> store \<Rightarrow> (db_error + RoleWithResources option) \<times> store" where
  "getRoleById rej i s =
     (if rej 0 then (Inl Rejected, s)
      else
        (case filter (\<lambda>r. r_id r = i) (roles s) of
           [] \<Rightarrow> (Inr None, s)
         | role # _ \<Rightarrow>
             if rej 1 then (Inl Rejected, s)
             else
               (Inr (Some (with_resources role
                  (sort_key res_id (filter (\<lambda>x. res_role_id x = i) (resources s))))), s)))"

text \<open>
  \<^verbatim>\<open>createRole\<close>. The three optional fields go through \<^verbatim>\<open>||\<close>: \<^verbatim>\<open>undefined\<close>,
  \<^verbatim>\<open>null\<close> and the empty string are falsy, an array never is. The new row takes
  the next value of the sequence, which stays consumed when the insertion fails.
\<close>

fun or_null :: "string optional \<Rightarrow> string option" where
  "or_null (Given t) = (if t = [] then None else Some t)"
| "or_null _ = None"

fun or_empty :: "'a list optional \<Rightarrow> 'a list" where
  "or_empty (Given xs) = xs"
| "or_empty _ = []"

definition createRole :: "faults \<Rightarrow> CreateRoleInput \<Rightarrow> store \<Rightarrow> (db_error + Role) \<times> store" where
  "createRole rej d s =
     (if rej 0 then (Inl Rejected, s)
      else
        (let i = roles_id_seq s + 1;
             row = \<lparr>r_id = i, r_name = in_name d,
                    r_short_description = in_short_description d,
                    r_long_description = or_null (in_long_description d),
                    r_responsibilities = Some (or_empty (in_responsibilities d)),
                    r_skills = Some (or_empty (in_skills d))\<rparr>
         in if i \<in> set (map r_id (roles s))
            then (Inl UniqueViolation, s\<lparr>roles_id_seq := i\<rparr>)
            else (Inr row, s\<lparr>roles := roles s @ [row], roles_id_seq := i\<rparr>)))"

text \<open>\<^verbatim>\<open>roleExists\<close>: \<^verbatim>\<open>SELECT 1 FROM roles WHERE id = $1\<close> has a row.\<close>

definition roleExists :: "faults \<Rightarrow> int \<Rightarrow> store \<Rightarrow> (db_error + bool) \<times> store" where
  "roleExists rej i s =
     (if rej 0 then (Inl Rejected, s)
      else (Inr (0 < length (filter (\<lambda>r. r_id r = i) (roles s))), s))"

text \<open>\<^verbatim>\<open>getResourcesByRoleId\<close>\<close>

definition getResourcesByRoleId ::
    "faults \<Rightarrow> int \<Rightarrow> store \<Rightarrow> (db_error + Resource list) \<times> store" where
  "getResourcesByRoleId rej i s =
     (if rej 0 then (Inl Rejected, s)
      else (Inr (sort_key res_id (filter (\<lambda>x. res_role_id x = i) (resources s))), s))"

text \<open>\<^verbatim>\<open>createResource\<close>, under the foreign key of \<^verbatim>\<open>role_id\<close>.\<close>

definition createResource ::
    "faults \<Rightarrow> CreateResourceInput \<Rightarrow> store \<Rightarrow> (db_error + Resource) \<times> store" where
  "createResource rej d s =
     (if rej 0 then (Inl Rejected, s)
      else
        (let i = resources_id_seq s + 1;
             row = \<lparr>res_id = i, res_role_id = in_role_id d, res_title = in_title d,
                    res_url = in_url d, res_resource_type = in_resource_type d,
                    res_difficulty = in_difficulty d\<rparr>
         in if i \<in> set (map res_id (resources s))
            then (Inl UniqueViolation, s\<lparr>resources_id_seq := i\<rparr>)
            else if in_role_id d \<notin> set (map r_id (roles s))
            then (Inl ForeignKeyViolation, s\<lparr>resources_id_seq := i\<rparr>)
            else (Inr row, s\<lparr>resources := resources s @ [row], resources_id_seq := i\<rparr>)))"

text \<open>
  \<^verbatim>\<open>DELETE FROM roles WHERE id = $1\<close>, the statement the test suites clean up with,
  under \<^verbatim>\<open>ON DELETE RESTRICT\<close>: it fails while a resource references the role.
\<close>

definition delete_role :: "faults \<Rightarrow> int \<Rightarrow> store \<Rightarrow> (db_error + nat) \<times> store" where
  "delete_role rej i s =
     (if rej 0 then (Inl Rejected, s)
      else if i \<in> set (map r_id (roles s)) \<and> i \<in> set (map res_role_id (resources s))
      then (Inl ForeignKeyViolation, s)
      else (Inr (length (filter (\<lambda>r. r_id r = i) (roles s))),
            s\<lparr>roles := filter (\<lambda>r. r_id r \<noteq> i) (roles s)\<rparr>))"

subsection \<open>Route handlers\<close>

text \<open>
  A response: the status and what \<^verbatim>\<open>res.json\<close> is given. Of an error object the
  member \<^verbatim>\<open>error\<close> is kept; \<^verbatim>\<open>details\<close>, a diagnostic text, is left out of the model.
\<close>

datatype body =
    Error string
  | RolesBody "RoleSummary list"
  | RoleBody RoleWithResources
  | CreatedRoleBody Role
  | ResourceBody Resource
  | HealthBody
  | RootBody

datatype response = Response (status: nat) (body: body)

text \<open>\<^verbatim>\<open>router.get('/roles')\<close>\<close>

definition get_roles :: "faults \<Rightarrow> store \<Rightarrow> response \<times> store" where
  "get_roles rej s =
     (case getAllRoles rej s of
        (Inl e, s') \<Rightarrow> (Response 500 (Error ''Failed to fetch roles''), s')
      | (Inr rs, s') \<Rightarrow> (Response 200 (RolesBody rs), s'))"

text \<open>\<^verbatim>\<open>router.get('/roles/:id')\<close>\<close>

definition get_roles_id :: "faults \<Rightarrow> string \<Rightarrow> store \<Rightarrow> response \<times> store" where
  "get_roles_id rej p s =
     (case RoleIdParamSchema_safeParse p of
        None \<Rightarrow> (Response 400 (Error ''Invalid ID format''), s)
      | Some i \<Rightarrow>
          (case getRoleById rej i s of
             (Inl e, s') \<Rightarrow> (Response 500 (Error ''Failed to fetch role''), s')
           | (Inr None, s') \<Rightarrow> (Response 404 (Error ''Role not found''), s')
           | (Inr (Some role), s') \<Rightarrow> (Response 200 (RoleBody role), s')))"

text \<open>\<^verbatim>\<open>router.post('/roles')\<close>\<close>

definition post_roles :: "faults \<Rightarrow> json \<Rightarrow> store \<Rightarrow> response \<times> store" where
  "post_roles rej b s =
     (case CreateRoleSchema_safeParse b of
        None \<Rightarrow> (Response 400 (Error ''Validation failed''), s)
      | Some roleData \<Rightarrow>
          (case createRole rej roleData s of
             (Inl e, s') \<Rightarrow> (Response 500 (Error ''Failed to create role''), s')
           | (Inr createdRole, s') \<Rightarrow> (Response 201 (CreatedRoleBody createdRole), s')))"

text \<open>
  \<^verbatim>\<open>router.post('/resources')\<close>: validation, then \<^verbatim>\<open>roleExists\<close>, then
  \<^verbatim>\<open>createResource\<close>, the second call of \<^verbatim>\<open>pool.query\<close> of the request.
\<close>

definition post_resources ::
    "(string \<Rightarrow> bool) \<Rightarrow> faults \<Rightarrow> json \<Rightarrow> store \<Rightarrow> response \<times> store" where
  "post_resources is_url rej b s =
     (case CreateResourceSchema_safeParse is_url b of
        None \<Rightarrow> (Response 400 (Error ''Validation failed''), s)
      | Some resourceData \<Rightarrow>
          (case roleExists rej (in_role_id resourceData) s of
             (Inl e, s') \<Rightarrow> (Response 500 (Error ''Failed to create resource''), s')
           | (Inr roleExistsResult, s') \<Rightarrow>
               if \<not> roleExistsResult then (Response 404 (Error ''Role not found''), s')
               else
                 (case createResource (later 1 rej) resourceData s' of
                    (Inl e, s'') \<Rightarrow> (Response 500 (Error ''Failed to create resource''), s'')
                  | (Inr createdResource, s'') \<Rightarrow>
                      (Response 201 (ResourceBody createdResource), s''))))"

text \<open>
  The application of \<^verbatim>\<open>server.ts\<close>: the two routers under \<^verbatim>\<open>/api\<close>, the health
  check, the root endpoint, and the 404 handler for every other method and path
  (\<open>Unmatched\<close>; a \<^verbatim>\<open>DELETE\<close> or a \<^verbatim>\<open>PUT\<close> on any path is one). A request is
  listed once its body has been parsed: one whose body is not JSON ends in the error
  middleware and reaches no handler and no query.
\<close>

datatype request =
    GET_roles
  | GET_roles_id string
  | POST_roles json
  | POST_resources json
  | GET_health
  | GET_root
  | Unmatched

fun app :: "(string \<Rightarrow> bool) \<Rightarrow> faults \<Rightarrow> request \<Rightarrow> store \<Rightarrow> response \<times> store" where
  "app is_url rej GET_roles s = get_roles rej s"
| "app is_url rej (GET_roles_id p) s = get_roles_id rej p s"
| "app is_url rej (POST_roles b) s = post_roles rej b s"
| "app is_url rej (POST_resources b) s = post_resources is_url rej b s"
| "app is_url rej GET_health s = (Response 200 HealthBody, s)"
| "app is_url rej GET_root s = (Response 200 RootBody, s)"
| "app is_url rej Unmatched s = (Response 404 (Error ''Not Found''), s)"

text \<open>A sequence of requests, each with the faults of its own queries.\<close>

fun serve :: "(string \<Rightarrow> bool) \<Rightarrow> (faults \<times> request) list \<Rightarrow> store \<Rightarrow> store" where
  "serve is_url [] s = s"
| "serve is_url ((rej, q) # qs) s = serve is_url qs (snd (app is_url rej q s))"

subsection \<open>The resource list of the frontend\<close>










subsection \<open>Invariants of the store\<close>

text \<open>
  \<open>refs_ok\<close>: every resource references a stored role. \<open>wf_store\<close>: moreover the
  sequence of \<^verbatim>\<open>roles.id\<close> has reached every id in use.
\<close>

definition refs_ok :: "store \<Rightarrow> bool" where
  "refs_ok s = list_all (\<lambda>x. res_role_id x \<in> set (map r_id (roles s))) (resources s)"

definition wf_store :: "store \<Rightarrow> bool" where
  "wf_store s = (list_all (\<lambda>r. r_id r \<le> roles_id_seq s) (roles s) \<and> refs_ok s)"

subsection \<open>Creating a role and reading it back\<close>

text \<open>
  The round trip of the persistence test: \<^verbatim>\<open>createRole\<close>, then \<^verbatim>\<open>getRoleById\<close>
  with the id of the created role; \<^const>\<open>None\<close> when a call throws or returns
  \<^verbatim>\<open>null\<close>.
\<close>

definition create_then_get :: "faults \<Rightarrow> CreateRoleInput \<Rightarrow> store \<Rightarrow> RoleWithResources option" where
  "create_then_get rej d s =
     (case createRole rej d s of
        (Inl e, s') \<Rightarrow> None
      | (Inr createdRole, s') \<Rightarrow>
          (case getRoleById (later 1 rej) (r_id createdRole) s' of
             (Inr (Some retrievedRole), s'') \<Rightarrow> Some retrievedRole
           | _ \<Rightarrow> None))"

text \<open>
  The long description the specification expects back: the given one, \<^verbatim>\<open>null\<close> when
  it was omitted.
\<close>

definition given_or_null :: "string optional \<Rightarrow> string option" where
  "given_or_null v = (case v of Given t \<Rightarrow> Some t | _ \<Rightarrow> None)"

subsection \<open>Example data\<close>

definition https :: "string \<Rightarrow> bool" where
  "https u = prefix ''https://'' u"

definition qa_role :: json where
  "qa_role = JObj [(''name'', JStr ''QA Engineer''),
                   (''short_description'', JStr ''Ensure software quality.'')]"

definition selenium :: json where
  "selenium = JObj [(''role_id'', JNum 1), (''title'', JStr ''Introduction to Selenium''),
                    (''url'', JStr ''https://www.selenium.dev/documentation/''),
                    (''resource_type'', JStr ''Article''), (''difficulty'', JStr ''Intermediate'')]"

definition qa_store :: store where
  "qa_store = serve https [(no_faults, POST_roles qa_role)] empty_store"

definition podcast :: json where
  "podcast = JObj [(''role_id'', JNum 1), (''title'', JStr ''Test Talks''),
                   (''url'', JStr ''https://testguild.com/podcasts/''),
                   (''resource_type'', JStr ''Podcast''), (''difficulty'', JStr ''Beginner'')]"

definition devops_role :: json where
  "devops_role = JObj [(''name'', JStr ''DevOps Engineer''),
                       (''short_description'', JStr ''Automate software deployment.''),
                       (''long_description'', JNull),
                       (''skills'', JArr [JStr ''Docker'', JStr ''Terraform''])]"

definition catalog :: store where
  "catalog = serve https [(no_faults, POST_roles qa_role), (no_faults, POST_roles devops_role),
                          (no_faults, POST_resources selenium)] empty_store"



definition blank_role :: json where
  "blank_role = JObj [(''name'', JStr ''Data Scientist''),
                      (''short_description'', JStr ''Analyze complex data.''),
                      (''long_description'', JStr ''''),
                      (''responsibilities'', JArr [JStr ''Build models'', JStr ''Clean data''])]"


section \<open>Properties\<close>

subsection \<open>How a request changes the store\<close>

lemma snd_getAllRoles: "snd (getAllRoles rej s) = s"
  by (simp add: getAllRoles_def)

lemma snd_getRoleById: "snd (getRoleById rej i s) = s"
  by (simp add: getRoleById_def split: list.split)

lemma snd_roleExists: "snd (roleExists rej i s) = s"
  by (simp add: roleExists_def)

lemma snd_get_roles: "snd (get_roles rej s) = s"
  by (simp add: get_roles_def getAllRoles_def)

lemma snd_get_roles_id: "snd (get_roles_id rej p s) = s"
  by (simp add: get_roles_id_def getRoleById_def split: option.split list.split)

lemma roleExists_iff:
  "roleExists rej i s = (if rej 0 then (Inl Rejected, s) else (Inr (i \<in> set (map r_id (roles s))), s))"
  by (auto simp: roleExists_def filter_empty_conv)

lemma createRole_cases:
  "createRole rej d s = (Inl Rejected, s)
   \<or> createRole rej d s = (Inl UniqueViolation, s\<lparr>roles_id_seq := roles_id_seq s + 1\<rparr>)
   \<or> (\<exists>row. createRole rej d s = (Inr row, s\<lparr>roles := roles s @ [row], roles_id_seq := roles_id_seq s + 1\<rparr>)
        \<and> r_id row = roles_id_seq s + 1)"
  by (simp add: createRole_def Let_def)

lemma createResource_cases:
  "createResource rej d s = (Inl Rejected, s)
   \<or> createResource rej d s = (Inl UniqueViolation, s\<lparr>resources_id_seq := resources_id_seq s + 1\<rparr>)
   \<or> createResource rej d s = (Inl ForeignKeyViolation, s\<lparr>resources_id_seq := resources_id_seq s + 1\<rparr>)
   \<or> (\<exists>row. createResource rej d s = (Inr row, s\<lparr>resources := resources s @ [row], resources_id_seq := resources_id_seq s + 1\<rparr>)
        \<and> res_role_id row = in_role_id d \<and> in_role_id d \<in> set (map r_id (roles s)))"
  by (simp add: createResource_def Let_def)

lemma post_roles_store:
  "snd (post_roles rej b s) = s
   \<or> snd (post_roles rej b s) = s\<lparr>roles_id_seq := roles_id_seq s + 1\<rparr>
   \<or> (\<exists>row. snd (post_roles rej b s) = s\<lparr>roles := roles s @ [row], roles_id_seq := roles_id_seq s + 1\<rparr>
        \<and> r_id row = roles_id_seq s + 1)"
proof (cases "CreateRoleSchema_safeParse b")
  case None
  then show ?thesis by (simp add: post_roles_def)
next
  case (Some d)
  show ?thesis
    using createRole_cases [of rej d s] Some
    by (auto simp: post_roles_def split: prod.split sum.split)
qed

lemma post_resources_store:
  "snd (post_resources is_url rej b s) = s
   \<or> snd (post_resources is_url rej b s) = s\<lparr>resources_id_seq := resources_id_seq s + 1\<rparr>
   \<or> (\<exists>row. snd (post_resources is_url rej b s) = s\<lparr>resources := resources s @ [row], resources_id_seq := resources_id_seq s + 1\<rparr>
        \<and> res_role_id row \<in> set (map r_id (roles s)))"
proof (cases "CreateResourceSchema_safeParse is_url b")
  case None
  then show ?thesis by (simp add: post_resources_def)
next
  case (Some d)
  show ?thesis
    using createResource_cases [of "later 1 rej" d s] Some
    by (auto simp: post_resources_def roleExists_iff split: prod.split sum.split)
qed

lemma app_store:
  "snd (app is_url rej q s) = s
   \<or> snd (app is_url rej q s) = s\<lparr>roles_id_seq := roles_id_seq s + 1\<rparr>
   \<or> (\<exists>row. snd (app is_url rej q s) = s\<lparr>roles := roles s @ [row], roles_id_seq := roles_id_seq s + 1\<rparr>
        \<and> r_id row = roles_id_seq s + 1)
   \<or> snd (app is_url rej q s) = s\<lparr>resources_id_seq := resources_id_seq s + 1\<rparr>
   \<or> (\<exists>row. snd (app is_url rej q s) = s\<lparr>resources := resources s @ [row], resources_id_seq := resources_id_seq s + 1\<rparr>
        \<and> res_role_id row \<in> set (map r_id (roles s)))"
proof (cases q)
  case (POST_roles b)
  then show ?thesis using post_roles_store [of rej b s] by auto
next
  case (POST_resources b)
  then show ?thesis using post_resources_store [of is_url rej b s] by auto
qed (simp_all add: snd_get_roles snd_get_roles_id)


lemma wf_store_app: "wf_store s \<Longrightarrow> wf_store (snd (app is_url rej q s))"
  using app_store [of is_url rej q s]
  by (auto simp: wf_store_def refs_ok_def list_all_iff) (force+)?


lemma wf_store_serve: "wf_store s \<Longrightarrow> wf_store (serve is_url qs s)"
  by (induction qs arbitrary: s) (auto simp: wf_store_app)

lemma prefix_app:
  "prefix (roles s) (roles (snd (app is_url rej q s))) \<and> prefix (resources s) (resources (snd (app is_url rej q s)))"
  using app_store [of is_url rej q s] by auto

lemma prefix_serve:
  "prefix (roles s) (roles (serve is_url qs s)) \<and> prefix (resources s) (resources (serve is_url qs s))"
proof (induction qs arbitrary: s)
  case Nil
  then show ?case by simp
next
  case (Cons a qs)
  obtain rej q where a: "a = (rej, q)" by (cases a)
  show ?case
    using Cons.IH [of "snd (app is_url rej q s)"] prefix_app [of s is_url rej q]
    by (auto simp: a intro: prefix_order.trans)
qed

subsection \<open>Creating a resource\<close>




lemma ResourceTypeSchema_iff:
  "ResourceTypeSchema v \<noteq> None \<longleftrightarrow>
     v \<in> {Some (JStr ''Video''), Some (JStr ''Article''), Some (JStr ''Course'')}"
  by (simp add: ResourceTypeSchema_def)

lemma DifficultyLevelSchema_iff:
  "DifficultyLevelSchema v \<noteq> None \<longleftrightarrow>
     v \<in> {Some (JStr ''Beginner''), Some (JStr ''Intermediate''), Some (JStr ''Advanced'')}"
  by (simp add: DifficultyLevelSchema_def)

lemma CreateResourceSchema_accepts:
  "CreateResourceSchema_safeParse is_url (JObj kvs) \<noteq> None \<longleftrightarrow>
     role_id_schema (member kvs ''role_id'') \<noteq> None
     \<and> title_schema (member kvs ''title'') \<noteq> None
     \<and> url_schema is_url (member kvs ''url'') \<noteq> None
     \<and> ResourceTypeSchema (member kvs ''resource_type'') \<noteq> None
     \<and> DifficultyLevelSchema (member kvs ''difficulty'') \<noteq> None"
  by (simp add: CreateResourceSchema_safeParse_def split: option.split)

lemma post_resources_invalid:
  "CreateResourceSchema_safeParse is_url b = None \<Longrightarrow>
     post_resources is_url rej b s = (Response 400 (Error ''Validation failed''), s)"
  by (simp add: post_resources_def)

lemma post_resources_status:
  "status (fst (post_resources is_url rej b s)) \<in> {201, 400, 404, 500}"
  by (simp add: post_resources_def roleExists_iff split: option.split prod.split sum.split)

lemma post_resources_valid:
  assumes "CreateResourceSchema_safeParse is_url b = Some d"
  shows "post_resources is_url rej b s =
     (if rej 0 then (Response 500 (Error ''Failed to create resource''), s)
      else if in_role_id d \<notin> set (map r_id (roles s))
      then (Response 404 (Error ''Role not found''), s)
      else
        (case createResource (later 1 rej) d s of
           (Inl e, s') \<Rightarrow> (Response 500 (Error ''Failed to create resource''), s')
         | (Inr r, s') \<Rightarrow> (Response 201 (ResourceBody r), s')))"
  using assms by (simp add: post_resources_def roleExists_iff)

lemma post_resources_unchanged:
  assumes "status (fst (post_resources is_url rej b s)) \<noteq> 201"
    and "status (fst (post_resources is_url rej b s)) \<noteq> 500"
  shows "snd (post_resources is_url rej b s) = s"
proof (cases "CreateResourceSchema_safeParse is_url b")
  case None
  then show ?thesis by (simp add: post_resources_invalid)
next
  case (Some d)
  show ?thesis
    using assms unfolding post_resources_valid [OF Some]
    by (simp split: if_splits prod.splits sum.splits)
qed

lemma post_resources_changed:
  assumes "snd (post_resources is_url rej b s) \<noteq> s"
  shows "\<exists>d. CreateResourceSchema_safeParse is_url b = Some d
           \<and> roleExists rej (in_role_id d) s = (Inr True, s)
           \<and> snd (post_resources is_url rej b s) = snd (createResource (later 1 rej) d s)"
proof (cases "CreateResourceSchema_safeParse is_url b")
  case None
  with assms show ?thesis by (simp add: post_resources_invalid)
next
  case (Some d)
  have "roleExists rej (in_role_id d) s = (Inr True, s)
        \<and> snd (post_resources is_url rej b s) = snd (createResource (later 1 rej) d s)"
    using assms unfolding post_resources_valid [OF Some]
    by (simp add: roleExists_iff split: if_splits prod.splits sum.splits)
  with Some show ?thesis by blast
qed

subsection \<open>Insertion and deletion\<close>

lemma post_roles_inserts:
  "resources (snd (post_roles rej b s)) = resources s
   \<and> (roles (snd (post_roles rej b s)) = roles s
      \<or> (\<exists>row. roles (snd (post_roles rej b s)) = roles s @ [row]
            \<and> r_id row \<notin> set (map r_id (roles s))))"
proof (cases "CreateRoleSchema_safeParse b")
  case None
  then show ?thesis by (simp add: post_roles_def)
next
  case (Some d)
  then show ?thesis
    by (simp add: post_roles_def createRole_def Let_def)
qed

lemma post_resources_inserts:
  "roles (snd (post_resources is_url rej b s)) = roles s
   \<and> (resources (snd (post_resources is_url rej b s)) = resources s
      \<or> (\<exists>row. resources (snd (post_resources is_url rej b s)) = resources s @ [row]
            \<and> res_id row \<notin> set (map res_id (resources s))))"
proof (cases "CreateResourceSchema_safeParse is_url b")
  case None
  then show ?thesis by (simp add: post_resources_def)
next
  case (Some d)
  then show ?thesis
    by (simp add: post_resources_valid createResource_def Let_def)
qed

lemma app_changes:
  assumes "snd (app is_url rej q s) \<noteq> s"
  shows "(\<exists>b. q = POST_roles b) \<or> (\<exists>b. q = POST_resources b)"
  using assms by (cases q) (simp_all add: snd_get_roles snd_get_roles_id)

lemma delete_role_restricted:
  assumes "i \<in> set (map r_id (roles s))" and "i \<in> set (map res_role_id (resources s))"
  shows "isl (fst (delete_role rej i s)) \<and> snd (delete_role rej i s) = s"
  using assms by (simp add: delete_role_def)

lemma refs_ok_delete_role:
  assumes "refs_ok s"
  shows "refs_ok (snd (delete_role rej i s))"
proof -
  have "res_role_id x \<in> r_id ` {r \<in> set (roles s). r_id r \<noteq> i}"
    if "x \<in> set (resources s)" and "i \<notin> res_role_id ` set (resources s)" for x
  proof -
    from assms that(1) obtain r where r: "r \<in> set (roles s)" "r_id r = res_role_id x"
      by (auto simp: refs_ok_def list_all_iff)
    from that have "res_role_id x \<noteq> i" by blast
    with r show ?thesis by force
  qed
  moreover have "{r \<in> set (roles s). r_id r \<noteq> i} = set (roles s)"
    if "i \<notin> r_id ` set (roles s)"
    using that by auto
  ultimately show ?thesis
    using assms by (auto simp: delete_role_def refs_ok_def list_all_iff)
qed

subsection \<open>Reading a role\<close>












subsection \<open>Listing the roles\<close>






subsection \<open>Creating a role\<close>





lemma wf_store_empty: "wf_store empty_store"
  by (simp add: wf_store_def refs_ok_def empty_store_def)

lemma wf_store_fresh:
  assumes "wf_store s"
  shows "roles_id_seq s + 1 \<notin> set (map r_id (roles s))
     \<and> roles_id_seq s + 1 \<notin> set (map res_role_id (resources s))"
proof -
  from assms have le: "\<And>r. r \<in> set (roles s) \<Longrightarrow> r_id r \<le> roles_id_seq s"
    and ref: "\<And>x. x \<in> set (resources s) \<Longrightarrow> res_role_id x \<in> set (map r_id (roles s))"
    by (auto simp: wf_store_def refs_ok_def list_all_iff)
  have 1: "roles_id_seq s + 1 \<notin> set (map r_id (roles s))"
    using le by fastforce
  have 2: "roles_id_seq s + 1 \<notin> set (map res_role_id (resources s))"
  proof
    assume "roles_id_seq s + 1 \<in> set (map res_role_id (resources s))"
    then obtain x where "x \<in> set (resources s)" "res_role_id x = roles_id_seq s + 1"
      by auto
    with ref [of x] 1 show False by simp
  qed
  from 1 2 show ?thesis ..
qed

lemma filter_key_absent:
  "k \<notin> set (map f xs) \<Longrightarrow> filter (\<lambda>x. f x = k) xs = []"
  by (induction xs) auto

lemma createRole_fresh:
  assumes "\<not> rej 0" and "roles_id_seq s + 1 \<notin> set (map r_id (roles s))"
  shows "createRole rej d s =
     (Inr \<lparr>r_id = roles_id_seq s + 1, r_name = in_name d,
           r_short_description = in_short_description d,
           r_long_description = or_null (in_long_description d),
           r_responsibilities = Some (or_empty (in_responsibilities d)),
           r_skills = Some (or_empty (in_skills d))\<rparr>,
      s\<lparr>roles := roles s @
           [\<lparr>r_id = roles_id_seq s + 1, r_name = in_name d,
             r_short_description = in_short_description d,
             r_long_description = or_null (in_long_description d),
             r_responsibilities = Some (or_empty (in_responsibilities d)),
             r_skills = Some (or_empty (in_skills d))\<rparr>],
         roles_id_seq := roles_id_seq s + 1\<rparr>)"
  using assms by (simp add: createRole_def Let_def)

lemma getRoleById_last:
  assumes "\<not> rej 0" and "\<not> rej 1" and "r_id row \<notin> set (map r_id rs)"
    and "r_id row \<notin> set (map res_role_id (resources s))"
  shows "getRoleById rej (r_id row) (s\<lparr>roles := rs @ [row], roles_id_seq := n\<rparr>) =
     (Inr (Some (with_resources row [])), s\<lparr>roles := rs @ [row], roles_id_seq := n\<rparr>)"
proof -
  have "filter (\<lambda>r. r_id r = r_id row) rs = []"
    using assms(3) by (rule filter_key_absent)
  moreover have "filter (\<lambda>x. res_role_id x = r_id row) (resources s) = []"
    using assms(4) by (rule filter_key_absent)
  ultimately show ?thesis
    using assms(1,2) by (simp add: getRoleById_def)
qed

lemma create_then_get_fresh:
  assumes "wf_store s" and "\<not> rej 0" and "\<not> rej 1" and "\<not> rej 2"
  shows "create_then_get rej d s =
     Some \<lparr>w_id = roles_id_seq s + 1, w_name = in_name d,
           w_short_description = in_short_description d,
           w_long_description = or_null (in_long_description d),
           w_responsibilities = Some (or_empty (in_responsibilities d)),
           w_skills = Some (or_empty (in_skills d)), w_resources = []\<rparr>"
proof -
  let ?row = "\<lparr>r_id = roles_id_seq s + 1, r_name = in_name d,
           r_short_description = in_short_description d,
           r_long_description = or_null (in_long_description d),
           r_responsibilities = Some (or_empty (in_responsibilities d)),
           r_skills = Some (or_empty (in_skills d))\<rparr>"
  from wf_store_fresh [OF assms(1)] have
    f: "r_id ?row \<notin> set (map r_id (roles s))" "r_id ?row \<notin> set (map res_role_id (resources s))"
    by simp_all
  have c: "createRole rej d s = (Inr ?row, s\<lparr>roles := roles s @ [?row], roles_id_seq := roles_id_seq s + 1\<rparr>)"
    using createRole_fresh [of rej s d] assms(2) f(1) by simp
  have l: "\<not> later 1 rej 0" "\<not> later 1 rej 1"
    using assms(3,4) by (simp_all add: later_def numeral_2_eq_2)
  have g: "getRoleById (later 1 rej) (r_id ?row)
       (s\<lparr>roles := roles s @ [?row], roles_id_seq := roles_id_seq s + 1\<rparr>) =
     (Inr (Some (with_resources ?row [])), s\<lparr>roles := roles s @ [?row], roles_id_seq := roles_id_seq s + 1\<rparr>)"
    using getRoleById_last [of "later 1 rej" ?row "roles s" s "roles_id_seq s + 1"] l f
    by blast
  show ?thesis
    unfolding create_then_get_def c using g by (simp add: with_resources_def)
qed

subsection \<open>The filtered list\<close>



section \<open>The claims\<close>




text \<open>
  C2. The two enumerations are fixed sets of three values. \<^verbatim>\<open>ResourceTypeSchema\<close>
  accepts exactly \<^verbatim>\<open>'Video'\<close>, \<^verbatim>\<open>'Article'\<close>, \<^verbatim>\<open>'Course'\<close> and
  \<^verbatim>\<open>DifficultyLevelSchema\<close> exactly \<^verbatim>\<open>'Beginner'\<close>, \<^verbatim>\<open>'Intermediate'\<close>,
  \<^verbatim>\<open>'Advanced'\<close>. A body is accepted by \<^verbatim>\<open>CreateResourceSchema\<close> exactly when its
  \<^verbatim>\<open>role_id\<close>, \<^verbatim>\<open>title\<close> and \<^verbatim>\<open>url\<close> are accepted and its \<^verbatim>\<open>resource_type\<close> and
  \<^verbatim>\<open>difficulty\<close> are among those values. For every body whose \<^verbatim>\<open>resource_type\<close> or
  \<^verbatim>\<open>difficulty\<close> is anything else (a missing member included), and for every body
  that is not an object, \<^verbatim>\<open>POST /api/resources\<close> responds 400 \<^verbatim>\<open>Validation failed\<close>
  and the store is as it was.
\<close>

theorem enumerations_fixed:
  "(ResourceTypeSchema v \<noteq> None \<longleftrightarrow>
      v \<in> {Some (JStr ''Video''), Some (JStr ''Article''), Some (JStr ''Course'')})
   \<and> (DifficultyLevelSchema v \<noteq> None \<longleftrightarrow>
      v \<in> {Some (JStr ''Beginner''), Some (JStr ''Intermediate''), Some (JStr ''Advanced'')})
   \<and> (CreateResourceSchema_safeParse is_url (JObj kvs) \<noteq> None \<longleftrightarrow>
        role_id_schema (member kvs ''role_id'') \<noteq> None
        \<and> title_schema (member kvs ''title'') \<noteq> None
        \<and> url_schema is_url (member kvs ''url'') \<noteq> None
        \<and> member kvs ''resource_type'' \<in>
            {Some (JStr ''Video''), Some (JStr ''Article''), Some (JStr ''Course'')}
        \<and> member kvs ''difficulty'' \<in>
            {Some (JStr ''Beginner''), Some (JStr ''Intermediate''), Some (JStr ''Advanced'')})
   \<and> (member kvs ''resource_type'' \<notin>
          {Some (JStr ''Video''), Some (JStr ''Article''), Some (JStr ''Course'')}
        \<or> member kvs ''difficulty'' \<notin>
          {Some (JStr ''Beginner''), Some (JStr ''Intermediate''), Some (JStr ''Advanced'')}
      \<longrightarrow> post_resources is_url rej (JObj kvs) s = (Response 400 (Error ''Validation failed''), s))
   \<and> ((\<forall>kvs'. b \<noteq> JObj kvs') \<longrightarrow>
        post_resources is_url rej b s = (Response 400 (Error ''Validation failed''), s))"
proof -
  have obj: "post_resources is_url rej b s = (Response 400 (Error ''Validation failed''), s)"
    if "\<forall>kvs'. b \<noteq> JObj kvs'"
    using that by (cases b) (simp_all add: post_resources_def CreateResourceSchema_safeParse_def)
  have acc: "CreateResourceSchema_safeParse is_url (JObj kvs) \<noteq> None \<longleftrightarrow>
        role_id_schema (member kvs ''role_id'') \<noteq> None
        \<and> title_schema (member kvs ''title'') \<noteq> None
        \<and> url_schema is_url (member kvs ''url'') \<noteq> None
        \<and> member kvs ''resource_type'' \<in>
            {Some (JStr ''Video''), Some (JStr ''Article''), Some (JStr ''Course'')}
        \<and> member kvs ''difficulty'' \<in>
            {Some (JStr ''Beginner''), Some (JStr ''Intermediate''), Some (JStr ''Advanced'')}"
    unfolding CreateResourceSchema_accepts ResourceTypeSchema_iff DifficultyLevelSchema_iff ..
  have rej: "post_resources is_url rej (JObj kvs) s = (Response 400 (Error ''Validation failed''), s)"
    if "member kvs ''resource_type'' \<notin>
          {Some (JStr ''Video''), Some (JStr ''Article''), Some (JStr ''Course'')}
        \<or> member kvs ''difficulty'' \<notin>
          {Some (JStr ''Beginner''), Some (JStr ''Intermediate''), Some (JStr ''Advanced'')}"
  proof -
    from that acc have "CreateResourceSchema_safeParse is_url (JObj kvs) = None" by blast
    then show ?thesis by (rule post_resources_invalid)
  qed
  from acc rej obj ResourceTypeSchema_iff [of v] DifficultyLevelSchema_iff [of v]
  show ?thesis by blast
qed

theorem enumerations_fixed_witness:
  "member [(''role_id'', JNum 1), (''title'', JStr ''Test Talks''),
           (''url'', JStr ''https://testguild.com/podcasts/''),
           (''resource_type'', JStr ''Podcast''), (''difficulty'', JStr ''Beginner'')] ''resource_type''
     \<notin> {Some (JStr ''Video''), Some (JStr ''Article''), Some (JStr ''Course'')}
   \<and> post_resources https no_faults podcast qa_store = (Response 400 (Error ''Validation failed''), qa_store)
   \<and> CreateResourceSchema_safeParse https selenium \<noteq> None
   \<and> post_resources https no_faults (JArr [podcast]) qa_store =
       (Response 400 (Error ''Validation failed''), qa_store)"
proof -
  have m: "member [(''role_id'', JNum 1), (''title'', JStr ''Test Talks''),
           (''url'', JStr ''https://testguild.com/podcasts/''),
           (''resource_type'', JStr ''Podcast''), (''difficulty'', JStr ''Beginner'')] ''resource_type''
     \<notin> {Some (JStr ''Video''), Some (JStr ''Article''), Some (JStr ''Course'')}"
    by (simp add: member_def)
  have a: "CreateResourceSchema_safeParse https selenium \<noteq> None"
    by code_simp
  from m a enumerations_fixed [of _ https
     "[(''role_id'', JNum 1), (''title'', JStr ''Test Talks''),
           (''url'', JStr ''https://testguild.com/podcasts/''),
           (''resource_type'', JStr ''Podcast''), (''difficulty'', JStr ''Beginner'')]" no_faults qa_store
     "JArr [podcast]"]
  show ?thesis
    unfolding podcast_def by blast
qed

text \<open>
  C3. The lifecycle is create-then-read. \<^verbatim>\<open>GET /api/roles\<close> and
  \<^verbatim>\<open>GET /api/roles/:id\<close> leave the store unchanged; a request that changes the store
  is a \<^verbatim>\<open>POST /api/roles\<close> or a \<^verbatim>\<open>POST /api/resources\<close>. \<^verbatim>\<open>POST /api/roles\<close>
  leaves the resources alone and either leaves the roles alone or appends one row
  with an id no stored role has; \<^verbatim>\<open>POST /api/resources\<close> does the same with the two
  tables exchanged. After any sequence of requests the rows stored before are still
  there, unchanged and in place: both tables have only grown at the end.
\<close>

theorem create_then_read_only:
  "snd (app is_url rej GET_roles s) = s
   \<and> snd (app is_url rej (GET_roles_id p) s) = s
   \<and> (snd (app is_url rej q s) \<noteq> s \<longrightarrow> (\<exists>b. q = POST_roles b) \<or> (\<exists>b. q = POST_resources b))
   \<and> resources (snd (app is_url rej (POST_roles b) s)) = resources s
   \<and> (roles (snd (app is_url rej (POST_roles b) s)) = roles s
      \<or> (\<exists>row. roles (snd (app is_url rej (POST_roles b) s)) = roles s @ [row]
            \<and> r_id row \<notin> set (map r_id (roles s))))
   \<and> roles (snd (app is_url rej (POST_resources b) s)) = roles s
   \<and> (resources (snd (app is_url rej (POST_resources b) s)) = resources s
      \<or> (\<exists>row. resources (snd (app is_url rej (POST_resources b) s)) = resources s @ [row]
            \<and> res_id row \<notin> set (map res_id (resources s))))
   \<and> prefix (roles s) (roles (serve is_url qs s))
   \<and> prefix (resources s) (resources (serve is_url qs s))"
  using app_changes [of is_url rej q s] post_roles_inserts [of rej b s]
    post_resources_inserts [of is_url rej b s] prefix_serve [of s is_url qs]
  by (simp add: snd_get_roles snd_get_roles_id)

theorem create_then_read_only_witness:
  "snd (app https no_faults (POST_roles devops_role) qa_store) \<noteq> qa_store
   \<and> prefix (roles qa_store) (roles catalog)
   \<and> prefix (resources qa_store) (resources catalog)
   \<and> map r_id (roles catalog) = [1, 2]
   \<and> map res_id (resources catalog) = [1]"
proof -
  have a: "snd (app https no_faults (POST_roles devops_role) qa_store) \<noteq> qa_store"
    by code_simp
  have b: "catalog = serve https [(no_faults, POST_roles devops_role),
                          (no_faults, POST_resources selenium)] qa_store"
    by (simp add: catalog_def qa_store_def)
  have c: "map r_id (roles catalog) = [1, 2]"
    by code_simp
  have d: "map res_id (resources catalog) = [1]"
    by code_simp
  from a c d create_then_read_only [of https no_faults qa_store _ "POST_roles devops_role" _
       "[(no_faults, POST_roles devops_role), (no_faults, POST_resources selenium)]"]
  show ?thesis
    unfolding b by blast
qed

text \<open>
  C4. Delete-restrict. No request of the application removes a role: the roles stored
  before a request are a prefix of those stored after it. The statement
  \<^verbatim>\<open>DELETE FROM roles WHERE id = $1\<close>, under \<^verbatim>\<open>ON DELETE RESTRICT\<close>, fails on a role
  that a resource still references and leaves both tables as they were; and whatever
  it does, every resource still references a stored role afterwards.
\<close>

theorem delete_restrict:
  "prefix (roles s) (roles (snd (app is_url rej q s)))
   \<and> (i \<in> set (map r_id (roles s)) \<and> i \<in> set (map res_role_id (resources s)) \<longrightarrow>
        isl (fst (delete_role rej' i s)) \<and> snd (delete_role rej' i s) = s)
   \<and> (refs_ok s \<longrightarrow> refs_ok (snd (delete_role rej' i s)))"
  using prefix_app [of s is_url rej q] delete_role_restricted [of i s rej']
    refs_ok_delete_role [of s rej' i]
  by blast

theorem delete_restrict_witness:
  "1 \<in> set (map r_id (roles catalog)) \<and> 1 \<in> set (map res_role_id (resources catalog))
   \<and> delete_role no_faults 1 catalog = (Inl ForeignKeyViolation, catalog)
   \<and> refs_ok catalog
   \<and> refs_ok (snd (delete_role no_faults 2 catalog))
   \<and> map r_id (roles (snd (delete_role no_faults 2 catalog))) = [1]"
proof -
  have a: "1 \<in> set (map r_id (roles catalog))"
    by code_simp
  have b: "1 \<in> set (map res_role_id (resources catalog))"
    by code_simp
  have c: "fst (delete_role no_faults 1 catalog) = Inl ForeignKeyViolation"
    by code_simp
  have d: "refs_ok catalog"
    by code_simp
  have e: "map r_id (roles (snd (delete_role no_faults 2 catalog))) = [1]"
    by code_simp
  from a b c d e delete_restrict [of catalog https no_faults GET_roles 1 no_faults]
    delete_restrict [of catalog https no_faults GET_roles 2 no_faults]
  show ?thesis
    by (metis prod.collapse)
qed




text \<open>
  C6. Creating a role and reading it back. As stated the claim fails: a valid body
  whose \<^verbatim>\<open>long_description\<close> is the empty string is stored with long description
  \<^verbatim>\<open>null\<close> (the \<^verbatim>\<open>||\<close> of \<^verbatim>\<open>createRole\<close>), not with the given one.
\<close>

theorem role_creation_round_trip_counterexample:
  "CreateRoleSchema_safeParse blank_role =
     Some \<lparr>in_name = ''Data Scientist'', in_short_description = ''Analyze complex data.'',
           in_long_description = Given '''',
           in_responsibilities = Given [''Build models'', ''Clean data''],
           in_skills = Undefined\<rparr>
   \<and> map_option w_long_description
        (create_then_get no_faults
           \<lparr>in_name = ''Data Scientist'', in_short_description = ''Analyze complex data.'',
            in_long_description = Given '''',
            in_responsibilities = Given [''Build models'', ''Clean data''],
            in_skills = Undefined\<rparr> empty_store) = Some None
   \<and> given_or_null (Given '''') = Some ''''"
  by code_simp

text \<open>
  C6, amended. For every valid role-creation input, on a store whose sequence has
  reached every role id and whose resources all reference stored roles, and with the
  three queries answered, \<^verbatim>\<open>createRole\<close> followed by \<^verbatim>\<open>getRoleById\<close> with the returned
  id yields a role with the next id of the sequence, the same name and short
  description, the long description \<^verbatim>\<open>null\<close> when it was omitted, \<^verbatim>\<open>null\<close> or the empty
  string and the given one otherwise, the given responsibilities and skills in their
  order (the empty list for one that was omitted or \<^verbatim>\<open>null\<close>), and no resources. Every
  store reached from the empty one is such a store.
\<close>

theorem role_creation_round_trip:
  "(CreateRoleSchema_safeParse b = Some d \<and> wf_store s \<and> \<not> rej 0 \<and> \<not> rej 1 \<and> \<not> rej 2 \<longrightarrow>
      (\<exists>w. create_then_get rej d s = Some w
         \<and> w_id w = roles_id_seq s + 1
         \<and> w_name w = in_name d
         \<and> w_short_description w = in_short_description d
         \<and> w_long_description w =
             (if in_long_description d = Given '''' then None
              else given_or_null (in_long_description d))
         \<and> w_responsibilities w =
             Some (case in_responsibilities d of Given xs \<Rightarrow> xs | _ \<Rightarrow> [])
         \<and> w_skills w = Some (case in_skills d of Given xs \<Rightarrow> xs | _ \<Rightarrow> [])
         \<and> w_resources w = []))
   \<and> wf_store (serve is_url qs empty_store)"
proof (intro conjI impI)
  show "wf_store (serve is_url qs empty_store)"
    by (rule wf_store_serve [OF wf_store_empty])
next
  assume a: "CreateRoleSchema_safeParse b = Some d \<and> wf_store s \<and> \<not> rej 0 \<and> \<not> rej 1 \<and> \<not> rej 2"
  have n: "or_null v = (if v = Given '''' then None else given_or_null v)" for v
    by (cases v) (simp_all add: given_or_null_def)
  have e: "or_empty v = (case v of Given xs \<Rightarrow> xs | _ \<Rightarrow> [])" for v :: "string list optional"
    by (cases v) simp_all
  from a have "create_then_get rej d s =
     Some \<lparr>w_id = roles_id_seq s + 1, w_name = in_name d,
           w_short_description = in_short_description d,
           w_long_description = or_null (in_long_description d),
           w_responsibilities = Some (or_empty (in_responsibilities d)),
           w_skills = Some (or_empty (in_skills d)), w_resources = []\<rparr>"
    by (intro create_then_get_fresh) simp_all
  then show "\<exists>w. create_then_get rej d s = Some w
         \<and> w_id w = roles_id_seq s + 1
         \<and> w_name w = in_name d
         \<and> w_short_description w = in_short_description d
         \<and> w_long_description w =
             (if in_long_description d = Given '''' then None
              else given_or_null (in_long_description d))
         \<and> w_responsibilities w =
             Some (case in_responsibilities d of Given xs \<Rightarrow> xs | _ \<Rightarrow> [])
         \<and> w_skills w = Some (case in_skills d of Given xs \<Rightarrow> xs | _ \<Rightarrow> [])
         \<and> w_resources w = []"
    by (simp add: n e)
qed

theorem role_creation_round_trip_witness:
  "CreateRoleSchema_safeParse devops_role =
     Some \<lparr>in_name = ''DevOps Engineer'',
           in_short_description = ''Automate software deployment.'',
           in_long_description = Null, in_responsibilities = Undefined,
           in_skills = Given [''Docker'', ''Terraform'']\<rparr>
   \<and> wf_store qa_store \<and> \<not> no_faults 0 \<and> \<not> no_faults 1 \<and> \<not> no_faults 2
   \<and> create_then_get no_faults
        \<lparr>in_name = ''DevOps Engineer'',
         in_short_description = ''Automate software deployment.'',
         in_long_description = Null, in_responsibilities = Undefined,
         in_skills = Given [''Docker'', ''Terraform'']\<rparr> qa_store =
       Some \<lparr>w_id = 2, w_name = ''DevOps Engineer'',
             w_short_description = ''Automate software deployment.'',
             w_long_description = None, w_responsibilities = Some [],
             w_skills = Some [''Docker'', ''Terraform''], w_resources = []\<rparr>
   \<and> wf_store catalog"
proof -
  have a: "CreateRoleSchema_safeParse devops_role =
     Some \<lparr>in_name = ''DevOps Engineer'',
           in_short_description = ''Automate software deployment.'',
           in_long_description = Null, in_responsibilities = Undefined,
           in_skills = Given [''Docker'', ''Terraform'']\<rparr>"
    by code_simp
  have b: "wf_store qa_store \<and> \<not> no_faults 0 \<and> \<not> no_faults 1 \<and> \<not> no_faults 2"
    by code_simp
  have c: "roles_id_seq qa_store + 1 = 2"
    by code_simp
  note t = role_creation_round_trip [of devops_role
     "\<lparr>in_name = ''DevOps Engineer'',
           in_short_description = ''Automate software deployment.'',
           in_long_description = Null, in_responsibilities = Undefined,
           in_skills = Given [''Docker'', ''Terraform'']\<rparr>" qa_store no_faults https
     "[(no_faults, POST_roles qa_role), (no_faults, POST_roles devops_role),
       (no_faults, POST_resources selenium)]"]
  from t have d: "wf_store catalog"
    unfolding catalog_def by blast
  from t a b obtain w where w: "create_then_get no_faults
        \<lparr>in_name = ''DevOps Engineer'',
         in_short_description = ''Automate software deployment.'',
         in_long_description = Null, in_responsibilities = Undefined,
         in_skills = Given [''Docker'', ''Terraform'']\<rparr> qa_store = Some w"
      "w_id w = roles_id_seq qa_store + 1" "w_name w = ''DevOps Engineer''"
      "w_short_description w = ''Automate software deployment.''"
      "w_long_description w = None" "w_responsibilities w = Some []"
      "w_skills w = Some [''Docker'', ''Terraform'']" "w_resources w = []"
    by (auto simp: given_or_null_def)
  from w c have "w = \<lparr>w_id = 2, w_name = ''DevOps Engineer'',
             w_short_description = ''Automate software deployment.'',
             w_long_description = None, w_responsibilities = Some [],
             w_skills = Some [''Docker'', ''Terraform''], w_resources = []\<rparr>"
    by (cases w) simp
  with w(1) a b d show ?thesis by simp
qed



text \<open>
  C8. Creating a resource is atomic on error. When \<^verbatim>\<open>POST /api/resources\<close> responds
  400 or 404 the store is exactly as it was before the request, and so is the table of
  resources on every status other than 201 and 500. The store changes only when the
  body passed validation and \<^verbatim>\<open>roleExists\<close> answered \<^verbatim>\<open>true\<close>, and then by what
  \<^verbatim>\<open>createResource\<close> did. The status is always one of 201, 400, 404, 500.
\<close>

theorem resource_creation_atomic_on_error:
  "(status (fst (post_resources is_url rej b s)) = 400
      \<or> status (fst (post_resources is_url rej b s)) = 404
      \<longrightarrow> snd (post_resources is_url rej b s) = s)
   \<and> (status (fst (post_resources is_url rej b s)) \<noteq> 201
      \<and> status (fst (post_resources is_url rej b s)) \<noteq> 500
      \<longrightarrow> resources (snd (post_resources is_url rej b s)) = resources s)
   \<and> (snd (post_resources is_url rej b s) \<noteq> s \<longrightarrow>
        (\<exists>d. CreateResourceSchema_safeParse is_url b = Some d
           \<and> roleExists rej (in_role_id d) s = (Inr True, s)
           \<and> snd (post_resources is_url rej b s) = snd (createResource (later 1 rej) d s)))
   \<and> status (fst (post_resources is_url rej b s)) \<in> {201, 400, 404, 500}"
proof (intro conjI impI)
  assume "status (fst (post_resources is_url rej b s)) = 400
      \<or> status (fst (post_resources is_url rej b s)) = 404"
  then show "snd (post_resources is_url rej b s) = s"
    by (intro post_resources_unchanged) auto
next
  assume "status (fst (post_resources is_url rej b s)) \<noteq> 201
      \<and> status (fst (post_resources is_url rej b s)) \<noteq> 500"
  then show "resources (snd (post_resources is_url rej b s)) = resources s"
    by (simp add: post_resources_unchanged)
next
  assume "snd (post_resources is_url rej b s) \<noteq> s"
  then show "\<exists>d. CreateResourceSchema_safeParse is_url b = Some d
           \<and> roleExists rej (in_role_id d) s = (Inr True, s)
           \<and> snd (post_resources is_url rej b s) = snd (createResource (later 1 rej) d s)"
    by (rule post_resources_changed)
next
  show "status (fst (post_resources is_url rej b s)) \<in> {201, 400, 404, 500}"
    by (rule post_resources_status)
qed

theorem resource_creation_atomic_on_error_witness:
  "status (fst (post_resources https no_faults podcast qa_store)) = 400
   \<and> snd (post_resources https no_faults podcast qa_store) = qa_store
   \<and> status (fst (post_resources https no_faults selenium empty_store)) = 404
   \<and> snd (post_resources https no_faults selenium empty_store) = empty_store
   \<and> resources (snd (post_resources https no_faults selenium empty_store)) = resources empty_store
   \<and> snd (post_resources https no_faults selenium qa_store) \<noteq> qa_store
   \<and> status (fst (post_resources https no_faults selenium qa_store)) = 201"
proof -
  have a: "status (fst (post_resources https no_faults podcast qa_store)) = 400"
    by code_simp
  have b: "status (fst (post_resources https no_faults selenium empty_store)) = 404"
    by code_simp
  have c: "snd (post_resources https no_faults selenium qa_store) \<noteq> qa_store"
    by code_simp
  have d: "status (fst (post_resources https no_faults selenium qa_store)) = 201"
    by code_simp
  from a b c d
    resource_creation_atomic_on_error [of https no_faults podcast qa_store]
    resource_creation_atomic_on_error [of https no_faults selenium empty_store]
  show ?thesis by simp
qed





end
